theory Spec2Isabelle
  imports Complex_Main "HOL-Library.Sublist"
begin

section \<open>Values, errors and the outside world\<close>

text \<open>
  The module \<^verbatim>\<open>kazoo/request_objects.py\<close> builds one HTTP request from a request
  descriptor, sends it with the \<^verbatim>\<open>requests\<close> library and classifies the answer.
  Python text is represented by its UTF-8 encoding, one \<^typ>\<open>char\<close> per byte; every
  character the module inspects (braces, ASCII letters, digits, underscore) is a single
  byte below 128, and no byte of a longer UTF-8 sequence is below 128.

  A decoded JSON document, and any Python value of the same shape, is a \<open>json\<close>.
  A Python \<^verbatim>\<open>dict\<close> is an association list in insertion order, read with
  \<^const>\<open>map_of\<close>.
\<close>

datatype pyfloat = Finite rat | PosInf | NegInf | NaN

datatype json =
    JNull
  | JBool bool
  | JInt int
  | JFloat pyfloat
  | JStr string
  | JArr "json list"
  | JObj "(string \<times> json) list"

text \<open>
  Modelled from the spec: the exception classes of \<^verbatim>\<open>kazoo/exceptions.py\<close>, which is not
  among the sources. Each carries the arguments the source constructs it with; for
  \<open>KazooApiError\<close> these are the format string, the request id and the message.
  The other constructors are the built-in exceptions the module raises or lets through.
  \<open>ValueError\<close> is the built-in exception raised for a missing keyword argument.
  \<open>JSONDecodeError\<close> is what \<^verbatim>\<open>raw_response.json()\<close> raises on a body that is not JSON;
  \<open>OtherError\<close> stands for any exception of a library function.
\<close>

datatype pyerror =
    InvalidHttpMethodError string
  | ValueError string
  | KazooApiError string json json
  | KazooApiBadDataError json
  | KazooApiAuthenticationError string
  | KeyError string
  | TypeError
  | AttributeError string
  | JSONDecodeError
  | OtherError string

record 'f http_request =
  req_url :: string
  req_headers :: "(string \<times> string option) list"
  req_data :: "string option"
  req_files :: "(string \<times> 'f) list option"

text \<open>
  The response object of \<^verbatim>\<open>requests\<close>: \<open>resp_headers r k\<close> is \<^verbatim>\<open>r.headers[k]\<close>
  (\<open>None\<close> when the lookup raises \<^verbatim>\<open>KeyError\<close>), and \<open>json_body r\<close> is the value of
  \<^verbatim>\<open>r.json()\<close> (\<open>None\<close> when the body does not parse and the call raises).
  The headers are a case-insensitive dictionary that looks a key up in lower case, so the
  \<^verbatim>\<open>KeyError\<close> of a missing header carries the lower-case key.
\<close>

record raw_response =
  status_code :: int
  resp_headers :: "string \<rightharpoonup> string"
  content :: string
  json_body :: "json option"

text \<open>
  The library functions the module calls. \<open>format_fields\<close> is \<^verbatim>\<open>str.format(**params)\<close>
  on a template that contains a brace; \<open>requests m\<close> is \<^verbatim>\<open>getattr(requests, m)\<close> for the
  four functions \<^verbatim>\<open>get\<close>, \<^verbatim>\<open>post\<close>, \<^verbatim>\<open>put\<close> and \<^verbatim>\<open>delete\<close>, which may raise.
\<close>

record ('v, 'f) pylib =
  format_fields :: "string \<Rightarrow> (string \<rightharpoonup> 'v) \<Rightarrow> pyerror + string"
  urlencode :: "(string \<times> string) list \<Rightarrow> string"
  json_dumps :: "json \<Rightarrow> string"
  md5_hexdigest :: "string \<Rightarrow> string"
  requests :: "string \<Rightarrow> 'f http_request \<Rightarrow> pyerror + raw_response"

text \<open>What a call does besides returning: the debug log lines and the HTTP calls, in order.\<close>

datatype 'f effect =
    LogDebug string "string list"
  | HttpCall string "'f http_request"

fun http_calls :: "'f effect list \<Rightarrow> (string \<times> 'f http_request) list" where
  "http_calls [] = []"
| "http_calls (LogDebug fmt args # es) = http_calls es"
| "http_calls (HttpCall m rq # es) = (m, rq) # http_calls es"

text \<open>Python truthiness of a value, as \<^verbatim>\<open>if data:\<close> tests it.\<close>

fun truthy :: "json \<Rightarrow> bool" where
  "truthy JNull = False"
| "truthy (JBool b) = b"
| "truthy (JInt i) = (i \<noteq> 0)"
| "truthy (JFloat f) = (f \<noteq> Finite 0)"
| "truthy (JStr s) = (s \<noteq> [])"
| "truthy (JArr xs) = (xs \<noteq> [])"
| "truthy (JObj kvs) = (kvs \<noteq> [])"

text \<open>
  \<^verbatim>\<open>value[key]\<close> with a string key: \<^verbatim>\<open>KeyError\<close> on a dict without the key,
  \<^verbatim>\<open>TypeError\<close> on every value that is not a dict.
\<close>

fun getitem :: "json \<Rightarrow> string \<Rightarrow> pyerror + json" where
  "getitem (JObj kvs) k = (case map_of kvs k of None \<Rightarrow> Inl (KeyError k) | Some v \<Rightarrow> Inr v)"
| "getitem j k = Inl TypeError"

text \<open>
  \<^verbatim>\<open>str.lower\<close> on the ASCII letters; other bytes are kept. A capital letter has a code
  from 65 to 90, where bit 5 is clear; setting it adds 32. The result is only compared
  with the four ASCII method names: a text with a character outside ASCII is none of them
  before or after lowering, in Python (the one such character with an ASCII lower case is
  the Kelvin sign, and no method name has a \<open>k\<close>) as here.
\<close>

definition lower_char :: "char \<Rightarrow> char" where
  "lower_char c =
     (let n = (of_char c :: nat)
      in if 65 \<le> n \<and> n \<le> 90
         then (case c of Char b0 b1 b2 b3 b4 b5 b6 b7 \<Rightarrow> Char b0 b1 b2 b3 b4 True b6 b7)
         else c)"

definition lower :: "string \<Rightarrow> string" where
  "lower s = map lower_char s"

section \<open>The request descriptor\<close>

subsection \<open>Required parameter names\<close>

text \<open>
  \<^verbatim>\<open>re.compile("{([a-zA-Z0-9_]+)}").findall(path)\<close>: the scan tries the pattern at each
  position from the left; a match yields its group and the scan goes on behind the match,
  a failure moves one character on.
\<close>

definition param_char :: "char \<Rightarrow> bool" where
  "param_char c =
     (let n = (of_char c :: nat)
      in (97 \<le> n \<and> n \<le> 122) \<or> (65 \<le> n \<and> n \<le> 90) \<or> (48 \<le> n \<and> n \<le> 57) \<or> n = 95)"

definition match_param :: "string \<Rightarrow> (string \<times> string) option" where
  "match_param s =
     (case s of
        [] \<Rightarrow> None
      | c # cs \<Rightarrow>
          if c \<noteq> CHR ''{'' then None
          else (let name = takeWhile param_char cs; rest = dropWhile param_char cs
                in if name = [] then None
                   else (case rest of
                           [] \<Rightarrow> None
                         | r # rs \<Rightarrow> if r = CHR ''}'' then Some (name, rs) else None)))"

lemma match_param_shorter:
  "match_param s = Some (name, rest) \<Longrightarrow> length rest < length s"
proof -
  assume a: "match_param s = Some (name, rest)"
  then obtain c cs where s: "s = c # cs" by (cases s) (auto simp: match_param_def)
  from a s have "dropWhile param_char cs = CHR ''}'' # rest"
    by (auto simp: match_param_def Let_def split: if_splits list.splits)
  then have "length rest < length (dropWhile param_char cs)" by simp
  also have "\<dots> \<le> length cs" by (rule length_dropWhile_le)
  finally show ?thesis using s by simp
qed

function findall_params :: "string \<Rightarrow> string list" where
  "findall_params [] = []"
| "findall_params (c # cs) =
     (case match_param (c # cs) of
        Some (name, rest) \<Rightarrow> name # findall_params rest
      | None \<Rightarrow> findall_params cs)"
  by pat_completeness auto
termination
  by (relation "measure length") (auto dest: match_param_shorter)

definition get_params_from_path :: "string \<Rightarrow> string list" where
  "get_params_from_path path = findall_params path"

subsection \<open>Construction, headers and URL\<close>

record kazoo_request =
  kr_path :: string
  kr_required_param_names :: "string list"
  kr_auth_required :: bool
  kr_method :: string
  kr_get_params :: "(string \<times> string) list option"

definition http_methods :: "string list" where
  "http_methods = [''get'', ''post'', ''put'', ''delete'']"

text \<open>
  \<^verbatim>\<open>KazooRequest.__init__(path, auth_required=True, method='get', get_params=None)\<close>;
  a caller that leaves an argument out passes the default.
\<close>

definition KazooRequest ::
  "string \<Rightarrow> bool \<Rightarrow> string \<Rightarrow> (string \<times> string) list option \<Rightarrow> kazoo_request" where
  "KazooRequest path auth_required method get_params =
     \<lparr>kr_path = path,
      kr_required_param_names = get_params_from_path path,
      kr_auth_required = auth_required,
      kr_method = method,
      kr_get_params = get_params\<rparr>"

definition get_headers :: "kazoo_request \<Rightarrow> string option \<Rightarrow> (string \<times> string option) list" where
  "get_headers self token =
     (''Content-Type'', Some ''application/json'') #
     (if kr_auth_required self then [(''X-Auth-Token'', token)] else [])"

text \<open>
  \<^verbatim>\<open>self.path.format(**params)\<close>: a template without a brace has neither a replacement
  field nor an escape and is returned as it is; every other template is left to the library.
\<close>

definition get_url_with_variables_replaced ::
  "('v, 'f) pylib \<Rightarrow> kazoo_request \<Rightarrow> (string \<rightharpoonup> 'v) \<Rightarrow> pyerror + string" where
  "get_url_with_variables_replaced L self params =
     (if CHR ''{'' \<notin> set (kr_path self) \<and> CHR ''}'' \<notin> set (kr_path self)
      then Inr (kr_path self)
      else format_fields L (kr_path self) params)"

definition get_url ::
  "('v, 'f) pylib \<Rightarrow> kazoo_request \<Rightarrow> (string \<rightharpoonup> 'v) \<Rightarrow> string \<Rightarrow> pyerror + string" where
  "get_url L self params base_url =
     (case get_url_with_variables_replaced L self params of
        Inl e \<Rightarrow> Inl e
      | Inr replaced \<Rightarrow>
          (let url = base_url @ replaced
           in case kr_get_params self of
                None \<Rightarrow> Inr url
              | Some q \<Rightarrow> if q \<noteq> [] then Inr (url @ ''?'' @ urlencode L q) else Inr url))"

subsection \<open>Classifying an error response\<close>

text \<open>Both handlers always raise; their value is the exception raised.\<close>

fun handle_error :: "json \<Rightarrow> pyerror" where
  "handle_error (JObj error_data) =
     (case map_of error_data ''error'' of
        None \<Rightarrow> KeyError ''error''
      | Some code \<Rightarrow>
          if code = JStr ''400'' \<and> map_of error_data ''data'' \<noteq> None
          then (case map_of error_data ''data'' of
                  None \<Rightarrow> KeyError ''data''
                | Some d \<Rightarrow> KazooApiBadDataError d)
          else if code = JStr ''401''
          then KazooApiAuthenticationError ''Invalid credentials''
          else (case map_of error_data ''request_id'' of
                  None \<Rightarrow> KeyError ''request_id''
                | Some request_id \<Rightarrow>
                    (case map_of error_data ''message'' of
                       None \<Rightarrow> KeyError ''message''
                     | Some message \<Rightarrow>
                         KazooApiError
                           ''There was an error calling the kazoo api, Request ID was %s the error was %s''
                           request_id message)))"
| "handle_error j = TypeError"

definition handle_500_error :: "raw_response \<Rightarrow> pyerror" where
  "handle_500_error raw =
     (case resp_headers raw ''X-Request-Id'' of
        None \<Rightarrow> KeyError ''x-request-id''
      | Some request_id \<Rightarrow>
          (case json_body raw of
             None \<Rightarrow> JSONDecodeError
           | Some body \<Rightarrow>
               if truthy body
               then (case getitem body ''data'' of
                       Inl e \<Rightarrow> e
                     | Inr message \<Rightarrow>
                         KazooApiError ''Internal Server Error, Request ID was %s message was %s''
                           (JStr request_id) message)
               else KazooApiError ''Internal Server Error, Request ID was %s message was %s''
                      (JStr request_id) (JStr ''There was no error message'')))"

subsection \<open>execute\<close>

text \<open>
  The result is the list of effects, in order, and either the exception raised or the
  value returned. \<^verbatim>\<open>getattr(requests, method)\<close> uses the method as the caller wrote it:
  the module has the four lower-case functions and no attribute under another spelling.
\<close>

definition execute ::
  "('v, 'f) pylib \<Rightarrow> kazoo_request \<Rightarrow> string \<Rightarrow> string option \<Rightarrow> json option \<Rightarrow> string option \<Rightarrow>
   (string \<times> 'f) list option \<Rightarrow> (string \<rightharpoonup> 'v) \<Rightarrow> 'f effect list \<times> (pyerror + json)" where
  "execute L self base_url method_arg data token files kwargs =
     (let method = (case method_arg of None \<Rightarrow> kr_method self | Some m \<Rightarrow> m)
      in if lower method \<notin> set http_methods
         then ([], Inl (InvalidHttpMethodError (''method '' @ method @ '' is not a valid http method'')))
         else
           (case find (\<lambda>param_name. kwargs param_name = None) (kr_required_param_names self) of
              Some param_name \<Rightarrow>
                ([], Inl (ValueError (''keyword argument '' @ param_name @ '' is required'')))
            | None \<Rightarrow>
                (case get_url L self kwargs base_url of
                   Inl e \<Rightarrow> ([], Inl e)
                 | Inr full_url \<Rightarrow>
                     (let log_request = LogDebug ''Making %s request to url %s'' [method, full_url];
                          headers = get_headers self token
                      in if method \<notin> set http_methods
                         then ([log_request], Inl (AttributeError method))
                         else
                           (let rq = \<lparr>req_url = full_url,
                                      req_headers = headers,
                                      req_data =
                                        (case data of
                                           None \<Rightarrow> None
                                         | Some d \<Rightarrow>
                                             if truthy d
                                             then Some (json_dumps L (JObj [(''data'', d)]))
                                             else None),
                                      req_files =
                                        (case files of
                                           None \<Rightarrow> None
                                         | Some fs \<Rightarrow> if fs \<noteq> [] then Some fs else None)\<rparr>;
                                sent = [log_request, HttpCall method rq]
                            in case requests L method rq of
                                 Inl e \<Rightarrow> (sent, Inl e)
                               | Inr raw_response \<Rightarrow>
                                   if status_code raw_response = 500
                                   then (sent, Inl (handle_500_error raw_response))
                                   else
                                     (case json_body raw_response of
                                        None \<Rightarrow> (sent, Inl JSONDecodeError)
                                      | Some response \<Rightarrow>
                                          (case getitem response ''status'' of
                                             Inl e \<Rightarrow> (sent, Inl e)
                                           | Inr status \<Rightarrow>
                                               if status = JStr ''error''
                                               then (sent @
                                                       [LogDebug ''There was an error, full error text is: %s''
                                                          [content raw_response]],
                                                     Inl (handle_error response))
                                               else (sent, Inr response))))))))"

section \<open>The authentication requests\<close>

record username_password_auth_request =
  upa_request :: kazoo_request
  upa_username :: string
  upa_password :: string
  upa_account_name :: string

definition UsernamePasswordAuthRequest ::
  "string \<Rightarrow> string \<Rightarrow> string \<Rightarrow> username_password_auth_request" where
  "UsernamePasswordAuthRequest username password account_name =
     \<lparr>upa_request = KazooRequest ''/user_auth'' False ''get'' None,
      upa_username = username,
      upa_password = password,
      upa_account_name = account_name\<rparr>"

text \<open>
  \<^verbatim>\<open>"{0}:{1}".format(username, password).encode()\<close>: the two strings joined by a colon;
  the UTF-8 encoding of a text is its representation here.
\<close>

definition get_hashed_credentials ::
  "('v, 'f) pylib \<Rightarrow> username_password_auth_request \<Rightarrow> string" where
  "get_hashed_credentials L self =
     md5_hexdigest L (upa_username self @ '':'' @ upa_password self)"

definition upa_execute ::
  "('v, 'f) pylib \<Rightarrow> username_password_auth_request \<Rightarrow> string \<Rightarrow> 'f effect list \<times> (pyerror + json)" where
  "upa_execute L self base_url =
     (let data = JObj [(''credentials'', JStr (get_hashed_credentials L self)),
                       (''account_name'', JStr (upa_account_name self))]
      in execute L (upa_request self) base_url (Some ''put'') (Some data) None None Map.empty)"

record api_key_auth_request =
  aka_request :: kazoo_request
  aka_api_key :: string

definition ApiKeyAuthRequest :: "string \<Rightarrow> api_key_auth_request" where
  "ApiKeyAuthRequest api_key =
     \<lparr>aka_request = KazooRequest ''/api_auth'' False ''get'' None, aka_api_key = api_key\<rparr>"

definition aka_execute ::
  "('v, 'f) pylib \<Rightarrow> api_key_auth_request \<Rightarrow> string \<Rightarrow> 'f effect list \<times> (pyerror + json)" where
  "aka_execute L self base_url =
     (let data = JObj [(''api_key'', JStr (aka_api_key self))]
      in execute L (aka_request self) base_url (Some ''put'') (Some data) None None Map.empty)"

section \<open>The specification's vocabulary\<close>

text \<open>
  The \<open>{name}\<close> tokens of a path template, as the specification describes them: the
  non-empty identifiers (letters, digits, underscore) that occur between braces.
\<close>

definition template_tokens :: "string \<Rightarrow> string set" where
  "template_tokens path =
     {n. n \<noteq> [] \<and> list_all param_char n \<and> sublist (CHR ''{'' # n @ [CHR ''}'']) path}"

text \<open>A method that is, ignoring case, one of GET, POST, PUT and DELETE.\<close>

definition valid_method_ci :: "string \<Rightarrow> bool" where
  "valid_method_ci m = (lower m \<in> lower ` {''GET'', ''POST'', ''PUT'', ''DELETE''})"

text \<open>
  The five error kinds of the specification: InvalidMethodError, MissingParameterError
  (the \<open>ValueError\<close> of the source), AuthenticationError, BadDataError and GenericApiError.
\<close>

fun spec_error_kind :: "pyerror \<Rightarrow> bool" where
  "spec_error_kind (InvalidHttpMethodError msg) = True"
| "spec_error_kind (ValueError msg) = True"
| "spec_error_kind (KazooApiAuthenticationError msg) = True"
| "spec_error_kind (KazooApiBadDataError d) = True"
| "spec_error_kind (KazooApiError fmt request_id message) = True"
| "spec_error_kind e = False"

text \<open>A JSON value that is an object with the given key.\<close>

fun has_key :: "json \<Rightarrow> string \<Rightarrow> bool" where
  "has_key (JObj kvs) k = (map_of kvs k \<noteq> None)"
| "has_key j k = False"

text \<open>
  A stub of the libraries for concrete runs: the transport answers every request with the
  given response, the other functions return fixed text.
\<close>

definition stub_lib :: "raw_response \<Rightarrow> (string, unit) pylib" where
  "stub_lib raw =
     \<lparr>format_fields = (\<lambda>template params. Inl (OtherError ''format'')),
      urlencode = (\<lambda>q. ''q''),
      json_dumps = (\<lambda>j. ''json''),
      md5_hexdigest = (\<lambda>s. ''md5''),
      requests = (\<lambda>m rq. Inr raw)\<rparr>"

text \<open>A response with a body that parses as JSON, for concrete runs.\<close>

definition json_response :: "int \<Rightarrow> (string \<rightharpoonup> string) \<Rightarrow> json \<Rightarrow> raw_response" where
  "json_response code hdrs body =
     \<lparr>status_code = code, resp_headers = hdrs, content = ''body'', json_body = Some body\<rparr>"

section \<open>Required parameter names are the tokens of the template\<close>

lemma not_param_char_braces: "\<not> param_char CHR ''{''" "\<not> param_char CHR ''}''"
  by (simp_all add: param_char_def)

lemma match_param_sound:
  assumes "match_param s = Some (n, r)"
  shows "s = CHR ''{'' # n @ CHR ''}'' # r \<and> n \<noteq> [] \<and> list_all param_char n"
proof -
  from assms obtain c cs where s: "s = c # cs" by (cases s) (auto simp: match_param_def)
  from assms s have c: "c = CHR ''{''" and n: "n = takeWhile param_char cs" "n \<noteq> []"
    and d: "dropWhile param_char cs = CHR ''}'' # r"
    by (auto simp: match_param_def Let_def split: if_splits list.splits)
  have "cs = takeWhile param_char cs @ dropWhile param_char cs" by simp
  with n d have "cs = n @ CHR ''}'' # r" by simp
  moreover have "list_all param_char n" unfolding n(1) list_all_iff
    by (auto dest: set_takeWhileD)
  ultimately show ?thesis using s c n by simp
qed

lemma match_param_complete:
  assumes "n \<noteq> []" "list_all param_char n"
  shows "match_param (CHR ''{'' # n @ CHR ''}'' # r) = Some (n, r)"
proof -
  from assms(2) have all: "\<And>x. x \<in> set n \<Longrightarrow> param_char x" by (simp add: list_all_iff)
  have t: "takeWhile param_char (n @ CHR ''}'' # r) = n"
    using all by (simp add: takeWhile_append2 not_param_char_braces)
  have d: "dropWhile param_char (n @ CHR ''}'' # r) = CHR ''}'' # r"
    using all by (simp add: dropWhile_append2 not_param_char_braces)
  show ?thesis using assms(1) by (simp add: match_param_def t d)
qed

lemma token_skips_name:
  assumes "list_all param_char n" "sublist (CHR ''{'' # t) (n @ CHR ''}'' # r)"
  shows "sublist (CHR ''{'' # t) r"
  using assms
proof (induction n)
  case Nil
  then show ?case by (auto simp: sublist_Cons_right)
next
  case (Cons a n)
  then have "a \<noteq> CHR ''{''" using not_param_char_braces by auto
  with Cons show ?case by (auto simp: sublist_Cons_right)
qed

lemma tokens_match:
  assumes "match_param (c # cs) = Some (n, r)"
  shows "template_tokens (c # cs) = insert n (template_tokens r)"
proof -
  from match_param_sound[OF assms]
  have s: "c # cs = CHR ''{'' # n @ CHR ''}'' # r" and n: "n \<noteq> []" "list_all param_char n"
    by auto
  then have cs: "cs = n @ CHR ''}'' # r" by simp
  show ?thesis
  proof (rule set_eqI)
    fix t
    show "t \<in> template_tokens (c # cs) \<longleftrightarrow> t \<in> insert n (template_tokens r)"
    proof
      assume "t \<in> template_tokens (c # cs)"
      then have t: "t \<noteq> []" "list_all param_char t"
        and sub: "sublist (CHR ''{'' # t @ [CHR ''}'']) (c # cs)"
        by (auto simp: template_tokens_def)
      from sub consider (pre) "prefix (CHR ''{'' # t @ [CHR ''}'']) (c # cs)"
        | (later) "sublist (CHR ''{'' # t @ [CHR ''}'']) cs"
        by (auto simp: sublist_Cons_right)
      then show "t \<in> insert n (template_tokens r)"
      proof cases
        case pre
        then obtain zs where "c # cs = CHR ''{'' # t @ CHR ''}'' # zs"
          by (auto simp: prefix_def)
        with match_param_complete[OF t, of zs] assms show ?thesis by simp
      next
        case later
        with cs n(2) have "sublist (CHR ''{'' # t @ [CHR ''}'']) r"
          using token_skips_name by simp
        with t show ?thesis by (simp add: template_tokens_def)
      qed
    next
      assume "t \<in> insert n (template_tokens r)"
      then show "t \<in> template_tokens (c # cs)"
      proof
        assume "t = n"
        have "prefix (CHR ''{'' # n @ [CHR ''}'']) (c # cs)" unfolding s by simp
        then show ?thesis using n \<open>t = n\<close> by (simp add: template_tokens_def)
      next
        assume "t \<in> template_tokens r"
        moreover have "suffix r (c # cs)" unfolding s suffix_def
          by (rule exI[of _ "CHR ''{'' # n @ [CHR ''}'']"]) simp
        ultimately show ?thesis
          by (auto simp: template_tokens_def dest: suffix_imp_sublist intro: sublist_order.order_trans)
      qed
    qed
  qed
qed

lemma tokens_no_match:
  assumes "match_param (c # cs) = None"
  shows "template_tokens (c # cs) = template_tokens cs"
proof (rule set_eqI)
  fix t
  show "t \<in> template_tokens (c # cs) \<longleftrightarrow> t \<in> template_tokens cs"
  proof
    assume "t \<in> template_tokens (c # cs)"
    then have t: "t \<noteq> []" "list_all param_char t"
      and sub: "sublist (CHR ''{'' # t @ [CHR ''}'']) (c # cs)"
      by (auto simp: template_tokens_def)
    have "\<not> prefix (CHR ''{'' # t @ [CHR ''}'']) (c # cs)"
    proof
      assume "prefix (CHR ''{'' # t @ [CHR ''}'']) (c # cs)"
      then obtain zs where "c # cs = CHR ''{'' # t @ CHR ''}'' # zs"
        by (auto simp: prefix_def)
      with match_param_complete[OF t, of zs] assms show False by simp
    qed
    with sub have "sublist (CHR ''{'' # t @ [CHR ''}'']) cs"
      by (auto simp: sublist_Cons_right)
    with t show "t \<in> template_tokens cs" by (simp add: template_tokens_def)
  next
    assume "t \<in> template_tokens cs"
    then show "t \<in> template_tokens (c # cs)"
      by (auto simp: template_tokens_def sublist_Cons_right)
  qed
qed

lemma tokens_Nil: "template_tokens [] = {}"
  by (auto simp: template_tokens_def)

lemma set_findall_params: "set (findall_params path) = template_tokens path"
proof (induction path rule: findall_params.induct)
  case 1
  show ?case by (simp add: tokens_Nil)
next
  case (2 c cs)
  show ?case
  proof (cases "match_param (c # cs)")
    case None
    with 2 show ?thesis by (simp add: tokens_no_match)
  next
    case (Some p)
    obtain n r where p: "p = (n, r)" by (cases p)
    with Some 2 show ?thesis by (simp add: tokens_match)
  qed
qed

section \<open>How a call proceeds\<close>

lemma lower_char_code:
  "(of_char (lower_char c) :: nat) =
   (if 65 \<le> (of_char c :: nat) \<and> (of_char c :: nat) \<le> 90 then of_char c + 32 else of_char c)"
proof (cases c)
  case (Char b0 b1 b2 b3 b4 b5 b6 b7)
  show ?thesis
    by (cases b0; cases b1; cases b2; cases b3; cases b4; cases b5; cases b6; cases b7)
       (simp_all add: Char lower_char_def)
qed

lemma lower_names: "lower ` {''GET'', ''POST'', ''PUT'', ''DELETE''} = set http_methods"
  by (simp add: lower_def lower_char_def http_methods_def)

lemma valid_method_ci_iff: "valid_method_ci m \<longleftrightarrow> lower m \<in> set http_methods"
  by (simp only: valid_method_ci_def lower_names)

lemma execute_invalid_method:
  assumes "lower (case method_arg of None \<Rightarrow> kr_method self | Some m \<Rightarrow> m) \<notin> set http_methods"
  shows "execute L self base_url method_arg data token files kwargs =
     ([], Inl (InvalidHttpMethodError
        (''method '' @ (case method_arg of None \<Rightarrow> kr_method self | Some m \<Rightarrow> m) @ '' is not a valid http method'')))"
  using assms by (simp add: execute_def Let_def)

lemma find_missing:
  assumes "n \<in> set names" "kwargs n = None"
  shows "\<exists>p. find (\<lambda>param_name. kwargs param_name = None) names = Some p \<and> p \<in> set names \<and> kwargs p = None"
proof (cases "find (\<lambda>param_name. kwargs param_name = None) names")
  case None
  with assms show ?thesis by (auto simp: find_None_iff)
next
  case (Some p)
  then show ?thesis by (auto simp: find_Some_iff)
qed

lemma execute_missing:
  assumes "lower (case method_arg of None \<Rightarrow> kr_method self | Some m \<Rightarrow> m) \<in> set http_methods"
    and "find (\<lambda>param_name. kwargs param_name = None) (kr_required_param_names self) = Some p"
  shows "execute L self base_url method_arg data token files kwargs =
     ([], Inl (ValueError (''keyword argument '' @ p @ '' is required'')))"
  using assms by (simp add: execute_def Let_def)

lemma execute_dispatch:
  assumes "lower method \<in> set http_methods" "method \<in> set http_methods"
    and "method = (case method_arg of None \<Rightarrow> kr_method self | Some m \<Rightarrow> m)"
    and "find (\<lambda>param_name. kwargs param_name = None) (kr_required_param_names self) = None"
    and "get_url L self kwargs base_url = Inr full_url"
    and "rq = \<lparr>req_url = full_url,
               req_headers = get_headers self token,
               req_data = (case data of None \<Rightarrow> None
                           | Some d \<Rightarrow> if truthy d then Some (json_dumps L (JObj [(''data'', d)])) else None),
               req_files = (case files of None \<Rightarrow> None | Some fs \<Rightarrow> if fs \<noteq> [] then Some fs else None)\<rparr>"
    and "sent = [LogDebug ''Making %s request to url %s'' [method, full_url], HttpCall method rq]"
  shows "execute L self base_url method_arg data token files kwargs =
     (case requests L method rq of
        Inl e \<Rightarrow> (sent, Inl e)
      | Inr raw \<Rightarrow>
          if status_code raw = 500 then (sent, Inl (handle_500_error raw))
          else (case json_body raw of
                  None \<Rightarrow> (sent, Inl JSONDecodeError)
                | Some response \<Rightarrow>
                    (case getitem response ''status'' of
                       Inl e \<Rightarrow> (sent, Inl e)
                     | Inr status \<Rightarrow>
                         if status = JStr ''error''
                         then (sent @ [LogDebug ''There was an error, full error text is: %s'' [content raw]],
                               Inl (handle_error response))
                         else (sent, Inr response))))"
proof -
  have "lower (case method_arg of None \<Rightarrow> kr_method self | Some m \<Rightarrow> m) \<in> set http_methods"
       "(case method_arg of None \<Rightarrow> kr_method self | Some m \<Rightarrow> m) \<in> set http_methods"
    using assms(1,2,3) by simp_all
  then show ?thesis
    unfolding assms(3,6,7) execute_def Let_def
    by (simp add: assms(4,5))
qed

lemma execute_sent:
  assumes "HttpCall m rq \<in> set (fst (execute L self base_url method_arg data token files kwargs))"
  shows "m = (case method_arg of None \<Rightarrow> kr_method self | Some m \<Rightarrow> m) \<and>
         lower m \<in> set http_methods \<and> m \<in> set http_methods \<and>
         find (\<lambda>param_name. kwargs param_name = None) (kr_required_param_names self) = None \<and>
         (\<exists>full_url. get_url L self kwargs base_url = Inr full_url \<and>
            rq = \<lparr>req_url = full_url,
                   req_headers = get_headers self token,
                   req_data = (case data of None \<Rightarrow> None
                               | Some d \<Rightarrow> if truthy d then Some (json_dumps L (JObj [(''data'', d)])) else None),
                   req_files = (case files of None \<Rightarrow> None | Some fs \<Rightarrow> if fs \<noteq> [] then Some fs else None)\<rparr>)"
proof -
  let ?meth = "case method_arg of None \<Rightarrow> kr_method self | Some m \<Rightarrow> m"
  let ?find = "find (\<lambda>param_name. kwargs param_name = None) (kr_required_param_names self)"
  have v: "lower ?meth \<in> set http_methods"
  proof (rule ccontr)
    assume "\<not> ?thesis"
    then show False using assms by (simp add: execute_def Let_def)
  qed
  have f: "?find = None"
  proof (cases ?find)
    case (Some p)
    then show ?thesis using assms v by (simp add: execute_def Let_def)
  qed simp
  obtain full_url where u: "get_url L self kwargs base_url = Inr full_url"
  proof (cases "get_url L self kwargs base_url")
    case (Inl e)
    then show ?thesis using assms v f by (simp add: execute_def Let_def)
  qed simp
  have m: "?meth \<in> set http_methods"
  proof (rule ccontr)
    assume "\<not> ?thesis"
    then show False using assms v f u by (simp add: execute_def Let_def)
  qed
  define rq0 where "rq0 = \<lparr>req_url = full_url,
                   req_headers = get_headers self token,
                   req_data = (case data of None \<Rightarrow> None
                               | Some d \<Rightarrow> if truthy d then Some (json_dumps L (JObj [(''data'', d)])) else None),
                   req_files = (case files of None \<Rightarrow> None | Some fs \<Rightarrow> if fs \<noteq> [] then Some fs else None)\<rparr>"
  note e = execute_dispatch[OF v m refl f u rq0_def refl]
  have "m = ?meth \<and> rq = rq0"
    using assms unfolding e by (auto split: sum.splits option.splits if_splits)
  with v f u m show ?thesis unfolding rq0_def by simp
qed

lemma execute_response:
  assumes "HttpCall m rq \<in> set (fst (execute L self base_url method_arg data token files kwargs))"
    and "requests L m rq = Inr raw"
  shows "snd (execute L self base_url method_arg data token files kwargs) =
     (if status_code raw = 500 then Inl (handle_500_error raw)
      else (case json_body raw of
              None \<Rightarrow> Inl JSONDecodeError
            | Some response \<Rightarrow>
                (case getitem response ''status'' of
                   Inl e \<Rightarrow> Inl e
                 | Inr status \<Rightarrow>
                     if status = JStr ''error'' then Inl (handle_error response) else Inr response)))"
proof -
  from execute_sent[OF assms(1)] obtain full_url where
    s: "m = (case method_arg of None \<Rightarrow> kr_method self | Some m \<Rightarrow> m)"
       "lower m \<in> set http_methods" "m \<in> set http_methods"
       "find (\<lambda>param_name. kwargs param_name = None) (kr_required_param_names self) = None"
       "get_url L self kwargs base_url = Inr full_url"
       "rq = \<lparr>req_url = full_url,
                   req_headers = get_headers self token,
                   req_data = (case data of None \<Rightarrow> None
                               | Some d \<Rightarrow> if truthy d then Some (json_dumps L (JObj [(''data'', d)])) else None),
                   req_files = (case files of None \<Rightarrow> None | Some fs \<Rightarrow> if fs \<noteq> [] then Some fs else None)\<rparr>"
    by blast
  show ?thesis
    unfolding execute_dispatch[OF s(2,3,1,4,5,6) refl]
    by (simp add: assms(2) split: option.splits sum.splits)
qed

text \<open>Concrete runs against the stub transport.\<close>

lemma json_response_sel:
  "status_code (json_response code hdrs body) = code"
  "resp_headers (json_response code hdrs body) = hdrs"
  "json_body (json_response code hdrs body) = Some body"
  by (simp_all add: json_response_def)

lemma requests_stub: "requests (stub_lib raw) m rq = Inr raw"
  by (simp add: stub_lib_def)

lemma run_stub:
  "execute (stub_lib raw) (KazooRequest ''/accounts'' True ''get'' None) ''http://h'' None None
     (Some ''tok'') None (Map.empty :: string \<rightharpoonup> string) =
   (let rq = \<lparr>req_url = ''http://h/accounts'',
              req_headers = [(''Content-Type'', Some ''application/json''), (''X-Auth-Token'', Some ''tok'')],
              req_data = None, req_files = None\<rparr>;
        sent = [LogDebug ''Making %s request to url %s'' [''get'', ''http://h/accounts''], HttpCall ''get'' rq]
    in if status_code raw = 500 then (sent, Inl (handle_500_error raw))
       else (case json_body raw of
               None \<Rightarrow> (sent, Inl JSONDecodeError)
             | Some response \<Rightarrow>
                 (case getitem response ''status'' of
                    Inl e \<Rightarrow> (sent, Inl e)
                  | Inr status \<Rightarrow>
                      if status = JStr ''error''
                      then (sent @ [LogDebug ''There was an error, full error text is: %s'' [content raw]],
                            Inl (handle_error response))
                      else (sent, Inr response))))"
  by (simp add: execute_def Let_def KazooRequest_def get_params_from_path_def stub_lib_def
      lower_def lower_char_def http_methods_def get_url_def get_url_with_variables_replaced_def
      get_headers_def match_param_def)

lemma run_stub_sent:
  "HttpCall ''get''
     \<lparr>req_url = ''http://h/accounts'',
      req_headers = [(''Content-Type'', Some ''application/json''), (''X-Auth-Token'', Some ''tok'')],
      req_data = None, req_files = None\<rparr>
   \<in> set (fst (execute (stub_lib raw) (KazooRequest ''/accounts'' True ''get'' None) ''http://h'' None None
     (Some ''tok'') None (Map.empty :: string \<rightharpoonup> string)))"
  unfolding run_stub Let_def by (simp split: option.splits sum.splits)

lemma run_stub_post:
  "fst (execute (stub_lib (json_response 200 Map.empty (JObj [(''status'', JStr ''success'')])))
     (KazooRequest ''/accounts'' True ''get'' None) ''http://h'' (Some ''post'') data
     (Some ''tok'') files (Map.empty :: string \<rightharpoonup> string)) =
   [LogDebug ''Making %s request to url %s'' [''post'', ''http://h/accounts''],
    HttpCall ''post''
      \<lparr>req_url = ''http://h/accounts'',
       req_headers = [(''Content-Type'', Some ''application/json''), (''X-Auth-Token'', Some ''tok'')],
       req_data =
         (case data of
            None \<Rightarrow> None
          | Some d \<Rightarrow>
              if truthy d
              then Some (json_dumps (stub_lib (json_response 200 Map.empty (JObj [(''status'', JStr ''success'')])))
                           (JObj [(''data'', d)]))
              else None),
       req_files = (case files of None \<Rightarrow> None | Some fs \<Rightarrow> if fs \<noteq> [] then Some fs else None)\<rparr>]"
  by (simp add: execute_def Let_def KazooRequest_def get_params_from_path_def requests_stub
      lower_def lower_char_def http_methods_def get_url_def get_url_with_variables_replaced_def
      get_headers_def match_param_def json_response_sel)

section \<open>Validation before the network\<close>

text \<open>
  Claim C4. For every path template, the set of the required parameter names computed
  when the descriptor is built is the set of \<open>{name}\<close> tokens that occur in the
  template; the order of the list and its repetitions do not matter.
\<close>

theorem required_param_names_are_template_tokens:
  "set (kr_required_param_names (KazooRequest path auth_required method get_params)) =
   template_tokens path"
  by (simp add: KazooRequest_def get_params_from_path_def set_findall_params)

theorem required_param_names_witness:
  "template_tokens ''/accounts/{account_id}/devices/{device_id}/{account_id}'' =
   {''account_id'', ''device_id''}"
  using required_param_names_are_template_tokens
          [of "''/accounts/{account_id}/devices/{device_id}/{account_id}''" True "''get''" None]
  by (auto simp: KazooRequest_def get_params_from_path_def match_param_def param_char_def)

text \<open>
  Claim C7. When the resolved method (the override if one is given, else the
  descriptor's) is not GET, POST, PUT or DELETE in any spelling of case, execute raises
  InvalidHttpMethodError with no effect at all, whatever named parameters are supplied.
\<close>

theorem execute_invalid_method_error:
  assumes "\<not> valid_method_ci (case method_arg of None \<Rightarrow> kr_method self | Some m \<Rightarrow> m)"
  shows "execute L self base_url method_arg data token files kwargs =
     ([], Inl (InvalidHttpMethodError
        (''method '' @ (case method_arg of None \<Rightarrow> kr_method self | Some m \<Rightarrow> m) @
         '' is not a valid http method'')))"
  using assms by (simp add: valid_method_ci_iff execute_invalid_method)

theorem execute_invalid_method_error_witness:
  "\<not> valid_method_ci ''PATCH'' \<and>
   execute (stub_lib (json_response 200 Map.empty JNull))
     (KazooRequest ''/accounts/{account_id}'' True ''get'' None) ''http://h''
     (Some ''PATCH'') None None None [''account_id'' \<mapsto> ''a1''] =
   ([], Inl (InvalidHttpMethodError ''method PATCH is not a valid http method''))"
proof -
  have h: "\<not> valid_method_ci (case Some ''PATCH'' of None \<Rightarrow> kr_method (KazooRequest ''/accounts/{account_id}'' True ''get'' None) | Some m \<Rightarrow> m)"
    by (simp add: valid_method_ci_iff lower_def lower_char_def http_methods_def)
  from execute_invalid_method_error[OF h] h show ?thesis by simp
qed

text \<open>
  Claim C1, as the code has it. The method is checked first, so the claim holds for a
  call whose resolved method is valid: when a \<open>{name}\<close> token of the template is not
  among the named parameters, execute raises the \<open>ValueError\<close> that names a missing
  token, and has no effect: no URL is built, nothing is logged and nothing is sent.
\<close>

theorem execute_missing_parameter:
  assumes "valid_method_ci (case method_arg of None \<Rightarrow> default_method | Some m \<Rightarrow> m)"
    and "n \<in> template_tokens path" and "n \<notin> dom kwargs"
  shows "\<exists>p. p \<in> template_tokens path \<and> p \<notin> dom kwargs \<and>
     execute L (KazooRequest path auth_required default_method get_params) base_url method_arg data token
       files kwargs =
     ([], Inl (ValueError (''keyword argument '' @ p @ '' is required'')))"
proof -
  let ?self = "KazooRequest path auth_required default_method get_params"
  have names: "set (kr_required_param_names ?self) = template_tokens path"
    by (simp add: KazooRequest_def get_params_from_path_def set_findall_params)
  with assms(2) have n: "n \<in> set (kr_required_param_names ?self)" by simp
  from assms(3) have k: "kwargs n = None" by (simp add: domIff)
  from find_missing[of n "kr_required_param_names ?self" kwargs, OF n k] obtain p where
    p: "find (\<lambda>param_name. kwargs param_name = None) (kr_required_param_names ?self) = Some p"
       "p \<in> set (kr_required_param_names ?self)" "kwargs p = None"
    by blast
  have v: "lower (case method_arg of None \<Rightarrow> kr_method ?self | Some m \<Rightarrow> m) \<in> set http_methods"
    using assms(1) by (cases method_arg) (simp_all add: valid_method_ci_iff KazooRequest_def)
  have "p \<in> template_tokens path" "p \<notin> dom kwargs"
    using p(2,3) names by (simp_all add: domIff)
  with execute_missing[OF v p(1), of L base_url data token files] show ?thesis by blast
qed

theorem execute_missing_parameter_witness:
  "valid_method_ci ''get'' \<and>
   ''device_id'' \<in> template_tokens ''/accounts/{account_id}/devices/{device_id}'' \<and>
   ''device_id'' \<notin> dom [''account_id'' \<mapsto> ''a1''] \<and>
   execute (stub_lib (json_response 200 Map.empty JNull))
     (KazooRequest ''/accounts/{account_id}/devices/{device_id}'' True ''get'' None) ''http://h''
     None None None None [''account_id'' \<mapsto> ''a1''] =
   ([], Inl (ValueError ''keyword argument device_id is required''))"
proof -
  have v: "valid_method_ci (case None of None \<Rightarrow> ''get'' | Some m \<Rightarrow> m)"
    by (simp add: valid_method_ci_iff lower_def lower_char_def http_methods_def)
  have t: "''device_id'' \<in> template_tokens ''/accounts/{account_id}/devices/{device_id}''"
    unfolding set_findall_params[symmetric] by (simp add: match_param_def param_char_def)
  have k: "''device_id'' \<notin> dom [''account_id'' \<mapsto> ''a1'']" by simp
  from execute_missing_parameter
         [where method_arg = None and default_method = "''get''" and n = "''device_id''"
            and path = "''/accounts/{account_id}/devices/{device_id}''"
            and kwargs = "[''account_id'' \<mapsto> ''a1'']"
            and L = "stub_lib (json_response 200 Map.empty JNull)"
            and auth_required = True and get_params = None and base_url = "''http://h''"
            and data = None and token = None and files = None, OF v t k]
  have "execute (stub_lib (json_response 200 Map.empty JNull))
     (KazooRequest ''/accounts/{account_id}/devices/{device_id}'' True ''get'' None) ''http://h''
     None None None None [''account_id'' \<mapsto> ''a1''] =
   ([], Inl (ValueError ''keyword argument device_id is required''))"
    by (simp add: execute_def KazooRequest_def get_params_from_path_def match_param_def
        param_char_def lower_def lower_char_def http_methods_def)
  with v t k show ?thesis by simp
qed

text \<open>
  The claim without the condition on the method fails: with the method \<open>patch\<close> and the
  parameter \<open>account_id\<close> missing, the exception is InvalidHttpMethodError.
\<close>

theorem execute_missing_parameter_counterexample:
  "''account_id'' \<in> template_tokens ''/accounts/{account_id}'' \<and>
   ''account_id'' \<notin> dom (Map.empty :: string \<rightharpoonup> string) \<and>
   execute (stub_lib (json_response 200 Map.empty JNull))
     (KazooRequest ''/accounts/{account_id}'' True ''get'' None) ''http://h''
     (Some ''patch'') None None None (Map.empty :: string \<rightharpoonup> string) =
   ([], Inl (InvalidHttpMethodError ''method patch is not a valid http method''))"
proof -
  have t: "''account_id'' \<in> template_tokens ''/accounts/{account_id}''"
    unfolding set_findall_params[symmetric] by (simp add: match_param_def param_char_def)
  have "execute (stub_lib (json_response 200 Map.empty JNull))
     (KazooRequest ''/accounts/{account_id}'' True ''get'' None) ''http://h''
     (Some ''patch'') None None None (Map.empty :: string \<rightharpoonup> string) =
   ([], Inl (InvalidHttpMethodError ''method patch is not a valid http method''))"
    by (simp add: execute_def lower_def lower_char_def http_methods_def)
  with t show ?thesis by simp
qed

section \<open>The request that is sent\<close>

text \<open>
  Claim C3, as the code has it. \<^verbatim>\<open>if data:\<close> and \<^verbatim>\<open>if files:\<close> test truthiness, so for
  every request that execute sends: the body is the JSON text of \<open>{"data": data}\<close> when
  the caller's data is truthy and absent when data is left out or empty; the files are
  passed on unchanged when they are non-empty and absent otherwise. The two are
  independent, and both may be set.
\<close>

theorem execute_request_body:
  assumes "HttpCall m rq \<in> set (fst (execute L self base_url method_arg data token files kwargs))"
  shows "req_data rq =
           (case data of
              None \<Rightarrow> None
            | Some d \<Rightarrow> if truthy d then Some (json_dumps L (JObj [(''data'', d)])) else None) \<and>
         req_files rq =
           (case files of None \<Rightarrow> None | Some fs \<Rightarrow> if fs \<noteq> [] then Some fs else None)"
proof -
  from execute_sent[OF assms] obtain full_url where
    "rq = \<lparr>req_url = full_url,
           req_headers = get_headers self token,
           req_data = (case data of None \<Rightarrow> None
                       | Some d \<Rightarrow> if truthy d then Some (json_dumps L (JObj [(''data'', d)])) else None),
           req_files = (case files of None \<Rightarrow> None | Some fs \<Rightarrow> if fs \<noteq> [] then Some fs else None)\<rparr>"
    by blast
  then show ?thesis by simp
qed

theorem execute_request_body_witness:
  "http_calls (fst (execute (stub_lib (json_response 200 Map.empty (JObj [(''status'', JStr ''success'')])))
     (KazooRequest ''/accounts'' True ''get'' None) ''http://h'' (Some ''post'')
     (Some (JObj [(''name'', JStr ''x'')])) (Some ''tok'') (Some [(''file'', ())])
     (Map.empty :: string \<rightharpoonup> string))) =
   [(''post'',
     \<lparr>req_url = ''http://h/accounts'',
      req_headers = [(''Content-Type'', Some ''application/json''), (''X-Auth-Token'', Some ''tok'')],
      req_data = Some (json_dumps (stub_lib (json_response 200 Map.empty (JObj [(''status'', JStr ''success'')])))
                         (JObj [(''data'', JObj [(''name'', JStr ''x'')])])),
      req_files = Some [(''file'', ())]\<rparr>)]"
proof -
  let ?L = "stub_lib (json_response 200 Map.empty (JObj [(''status'', JStr ''success'')]))"
  let ?rq = "\<lparr>req_url = ''http://h/accounts'',
      req_headers = [(''Content-Type'', Some ''application/json''), (''X-Auth-Token'', Some ''tok'')],
      req_data = Some (json_dumps ?L (JObj [(''data'', JObj [(''name'', JStr ''x'')])])),
      req_files = Some [(''file'', ())]\<rparr>"
  have tr: "fst (execute ?L (KazooRequest ''/accounts'' True ''get'' None) ''http://h'' (Some ''post'')
     (Some (JObj [(''name'', JStr ''x'')])) (Some ''tok'') (Some [(''file'', ())])
     (Map.empty :: string \<rightharpoonup> string)) =
     [LogDebug ''Making %s request to url %s'' [''post'', ''http://h/accounts''], HttpCall ''post'' ?rq]"
    by (simp add: run_stub_post)
  then have "HttpCall ''post'' ?rq \<in> set (fst (execute ?L (KazooRequest ''/accounts'' True ''get'' None)
     ''http://h'' (Some ''post'') (Some (JObj [(''name'', JStr ''x'')])) (Some ''tok'')
     (Some [(''file'', ())]) (Map.empty :: string \<rightharpoonup> string)))"
    by simp
  from execute_request_body[OF this] tr show ?thesis by simp
qed

text \<open>
  The claim for every supplied data fails: with \<open>data = {}\<close> the request has no body.
\<close>

theorem execute_request_body_counterexample:
  "fst (execute (stub_lib (json_response 200 Map.empty (JObj [(''status'', JStr ''success'')])))
     (KazooRequest ''/accounts'' True ''get'' None) ''http://h'' (Some ''post'')
     (Some (JObj [])) (Some ''tok'') None (Map.empty :: string \<rightharpoonup> string)) =
   [LogDebug ''Making %s request to url %s'' [''post'', ''http://h/accounts''],
    HttpCall ''post''
      \<lparr>req_url = ''http://h/accounts'',
       req_headers = [(''Content-Type'', Some ''application/json''), (''X-Auth-Token'', Some ''tok'')],
       req_data = None,
       req_files = None\<rparr>]"
  by (simp add: run_stub_post)

text \<open>
  Claim C6. The credential digest of the username and password request is the MD5 hex
  digest of username, a colon and password in UTF-8; the descriptor requires no auth
  header; and execute sends exactly one request: \<open>put\<close> to the base URL followed by
  \<open>/user_auth\<close>, with the content type as its only header and the JSON text of the
  credentials and the account name, wrapped as data, as its body.
\<close>

theorem username_password_auth_request:
  "get_hashed_credentials L (UsernamePasswordAuthRequest username password account_name) =
     md5_hexdigest L (username @ '':'' @ password) \<and>
   kr_auth_required (upa_request (UsernamePasswordAuthRequest username password account_name)) = False \<and>
   http_calls (fst (upa_execute L (UsernamePasswordAuthRequest username password account_name) base_url)) =
     [(''put'',
       \<lparr>req_url = base_url @ ''/user_auth'',
        req_headers = [(''Content-Type'', Some ''application/json'')],
        req_data =
          Some (json_dumps L
                  (JObj [(''data'',
                          JObj [(''credentials'', JStr (md5_hexdigest L (username @ '':'' @ password))),
                                (''account_name'', JStr account_name)])])),
        req_files = None\<rparr>)]"
proof -
  let ?self = "UsernamePasswordAuthRequest username password account_name"
  let ?data = "JObj [(''credentials'', JStr (md5_hexdigest L (username @ '':'' @ password))),
                     (''account_name'', JStr account_name)]"
  let ?rq = "\<lparr>req_url = base_url @ ''/user_auth'',
        req_headers = [(''Content-Type'', Some ''application/json'')],
        req_data = Some (json_dumps L (JObj [(''data'', ?data)])),
        req_files = (None :: (string \<times> 'b) list option)\<rparr>"
  have h: "get_hashed_credentials L ?self = md5_hexdigest L (username @ '':'' @ password)"
    by (simp add: get_hashed_credentials_def UsernamePasswordAuthRequest_def)
  have r: "upa_request ?self = KazooRequest ''/user_auth'' False ''get'' None"
    by (simp add: UsernamePasswordAuthRequest_def)
  have an: "upa_account_name ?self = account_name"
    by (simp add: UsernamePasswordAuthRequest_def)
  have names: "kr_required_param_names (KazooRequest ''/user_auth'' False ''get'' None) = []"
    by (simp add: KazooRequest_def get_params_from_path_def match_param_def)
  have url: "get_url L (KazooRequest ''/user_auth'' False ''get'' None) Map.empty base_url =
             Inr (base_url @ ''/user_auth'')"
    by (simp add: get_url_def get_url_with_variables_replaced_def KazooRequest_def)
  have hd: "get_headers (KazooRequest ''/user_auth'' False ''get'' None) None =
            [(''Content-Type'', Some ''application/json'')]"
    by (simp add: get_headers_def KazooRequest_def)
  have e: "upa_execute L ?self base_url =
           execute L (KazooRequest ''/user_auth'' False ''get'' None) base_url (Some ''put'')
             (Some ?data) None None Map.empty"
    by (simp add: upa_execute_def Let_def h r an)
  have d: "execute L (KazooRequest ''/user_auth'' False ''get'' None) base_url (Some ''put'')
             (Some ?data) None None Map.empty =
     (case requests L ''put'' ?rq of
        Inl e \<Rightarrow> ([LogDebug ''Making %s request to url %s'' [''put'', base_url @ ''/user_auth''], HttpCall ''put'' ?rq], Inl e)
      | Inr raw \<Rightarrow>
          if status_code raw = 500 then ([LogDebug ''Making %s request to url %s'' [''put'', base_url @ ''/user_auth''], HttpCall ''put'' ?rq], Inl (handle_500_error raw))
          else (case json_body raw of
                  None \<Rightarrow> ([LogDebug ''Making %s request to url %s'' [''put'', base_url @ ''/user_auth''], HttpCall ''put'' ?rq], Inl JSONDecodeError)
                | Some response \<Rightarrow>
                    (case getitem response ''status'' of
                       Inl e \<Rightarrow> ([LogDebug ''Making %s request to url %s'' [''put'', base_url @ ''/user_auth''], HttpCall ''put'' ?rq], Inl e)
                     | Inr status \<Rightarrow>
                         if status = JStr ''error''
                         then ([LogDebug ''Making %s request to url %s'' [''put'', base_url @ ''/user_auth''], HttpCall ''put'' ?rq] @ [LogDebug ''There was an error, full error text is: %s'' [content raw]],
                               Inl (handle_error response))
                         else ([LogDebug ''Making %s request to url %s'' [''put'', base_url @ ''/user_auth''], HttpCall ''put'' ?rq], Inr response))))"
    by (rule execute_dispatch[where full_url = "base_url @ ''/user_auth''"])
       (simp_all add: lower_def lower_char_def http_methods_def names url hd)
  have "http_calls (fst (upa_execute L ?self base_url)) = [(''put'', ?rq)]"
    unfolding e d by (simp split: sum.splits option.splits)
  with h r show ?thesis by (simp add: KazooRequest_def)
qed

theorem username_password_auth_request_witness:
  "get_hashed_credentials (stub_lib (json_response 200 Map.empty JNull))
     (UsernamePasswordAuthRequest ''u'' ''p'' ''acme'') =
   md5_hexdigest (stub_lib (json_response 200 Map.empty JNull)) ''u:p''"
  using username_password_auth_request
          [of "stub_lib (json_response 200 Map.empty JNull)" "''u''" "''p''" "''acme''" "''http://h''"]
  by simp

section \<open>Classifying the response\<close>

text \<open>
  In the theorems below, an execute call whose HTTP response is \<open>raw\<close> is a call that
  sent a request \<open>rq\<close> with method \<open>m\<close> to which the transport answered \<open>raw\<close>.

  Claim C5. When the status code is not 500 and the parsed body is an object whose
  \<open>status\<close> field is not \<open>"error"\<close>, execute returns the parsed body unchanged.
\<close>

theorem execute_returns_body:
  assumes "HttpCall m rq \<in> set (fst (execute L self base_url method_arg data token files kwargs))"
    and "requests L m rq = Inr raw"
    and "status_code raw \<noteq> 500"
    and "json_body raw = Some (JObj body)"
    and "map_of body ''status'' = Some status"
    and "status \<noteq> JStr ''error''"
  shows "snd (execute L self base_url method_arg data token files kwargs) = Inr (JObj body)"
  using assms(3-6) by (simp add: execute_response[OF assms(1,2)])

theorem execute_returns_body_witness:
  "snd (execute (stub_lib (json_response 200 Map.empty
          (JObj [(''status'', JStr ''success''), (''data'', JObj [(''x'', JInt 1)])])))
        (KazooRequest ''/accounts'' True ''get'' None) ''http://h'' None None
        (Some ''tok'') None (Map.empty :: string \<rightharpoonup> string)) =
   Inr (JObj [(''status'', JStr ''success''), (''data'', JObj [(''x'', JInt 1)])])"
  by (rule execute_returns_body[OF run_stub_sent requests_stub, where status = "JStr ''success''"])
     (simp_all add: json_response_def)

text \<open>
  Claim C8. When the status code is not 500 and the parsed body has status \<open>"error"\<close>
  and error code \<open>"401"\<close>, execute raises the authentication error with the message
  \<open>Invalid credentials\<close>, whatever else the body holds.
\<close>

theorem execute_authentication_error:
  assumes "HttpCall m rq \<in> set (fst (execute L self base_url method_arg data token files kwargs))"
    and "requests L m rq = Inr raw"
    and "status_code raw \<noteq> 500"
    and "json_body raw = Some (JObj body)"
    and "map_of body ''status'' = Some (JStr ''error'')"
    and "map_of body ''error'' = Some (JStr ''401'')"
  shows "snd (execute L self base_url method_arg data token files kwargs) =
         Inl (KazooApiAuthenticationError ''Invalid credentials'')"
  using assms(3-6) by (simp add: execute_response[OF assms(1,2)])

theorem execute_authentication_error_witness:
  "snd (execute (stub_lib (json_response 401 Map.empty
          (JObj [(''status'', JStr ''error''), (''error'', JStr ''401''),
                 (''data'', JObj [(''field'', JStr ''bad'')]), (''message'', JStr ''denied'')])))
        (KazooRequest ''/accounts'' True ''get'' None) ''http://h'' None None
        (Some ''tok'') None (Map.empty :: string \<rightharpoonup> string)) =
   Inl (KazooApiAuthenticationError ''Invalid credentials'')"
proof -
  let ?b = "[(''status'', JStr ''error''), (''error'', JStr ''401''),
             (''data'', JObj [(''field'', JStr ''bad'')]), (''message'', JStr ''denied'')]"
  have a: "status_code (json_response 401 Map.empty (JObj ?b)) \<noteq> 500"
          "json_body (json_response 401 Map.empty (JObj ?b)) = Some (JObj ?b)"
          "map_of ?b ''status'' = Some (JStr ''error'')"
          "map_of ?b ''error'' = Some (JStr ''401'')"
    by (simp_all add: json_response_def)
  from execute_authentication_error[OF run_stub_sent requests_stub a] show ?thesis .
qed

text \<open>
  Claim C9, as the code has it. For a response that is not a 500 and whose parsed body
  has status \<open>"error"\<close>: with error code \<open>"400"\<close> and a \<open>data\<close> field, execute raises
  the bad data error with that data; with any code that is neither \<open>"401"\<close> nor
  \<open>"400"\<close> with data, and with the fields \<open>request_id\<close> and \<open>message\<close> present, it
  raises the generic API error with those two values.
\<close>

theorem execute_api_error:
  assumes "HttpCall m rq \<in> set (fst (execute L self base_url method_arg data token files kwargs))"
    and "requests L m rq = Inr raw"
    and "status_code raw \<noteq> 500"
    and "json_body raw = Some (JObj body)"
    and "map_of body ''status'' = Some (JStr ''error'')"
  shows "(map_of body ''error'' = Some (JStr ''400'') \<and> map_of body ''data'' = Some d \<longrightarrow>
            snd (execute L self base_url method_arg data token files kwargs) =
            Inl (KazooApiBadDataError d)) \<and>
         (map_of body ''error'' = Some code \<and> code \<noteq> JStr ''401'' \<and>
          (code = JStr ''400'' \<longrightarrow> map_of body ''data'' = None) \<and>
          map_of body ''request_id'' = Some request_id \<and> map_of body ''message'' = Some message \<longrightarrow>
            snd (execute L self base_url method_arg data token files kwargs) =
            Inl (KazooApiError
                   ''There was an error calling the kazoo api, Request ID was %s the error was %s''
                   request_id message))"
  using assms(3-5) by (simp add: execute_response[OF assms(1,2)])

theorem execute_api_error_witness:
  "snd (execute (stub_lib (json_response 400 Map.empty
          (JObj [(''status'', JStr ''error''), (''error'', JStr ''400''),
                 (''data'', JObj [(''field'', JStr ''bad'')])])))
        (KazooRequest ''/accounts'' True ''get'' None) ''http://h'' None None
        (Some ''tok'') None (Map.empty :: string \<rightharpoonup> string)) =
   Inl (KazooApiBadDataError (JObj [(''field'', JStr ''bad'')])) \<and>
   snd (execute (stub_lib (json_response 404 Map.empty
          (JObj [(''status'', JStr ''error''), (''error'', JStr ''404''),
                 (''request_id'', JStr ''r1''), (''message'', JStr ''not found'')])))
        (KazooRequest ''/accounts'' True ''get'' None) ''http://h'' None None
        (Some ''tok'') None (Map.empty :: string \<rightharpoonup> string)) =
   Inl (KazooApiError
          ''There was an error calling the kazoo api, Request ID was %s the error was %s''
          (JStr ''r1'') (JStr ''not found''))"
proof -
  let ?bad = "[(''status'', JStr ''error''), (''error'', JStr ''400''),
               (''data'', JObj [(''field'', JStr ''bad'')])]"
  let ?nf = "[(''status'', JStr ''error''), (''error'', JStr ''404''),
              (''request_id'', JStr ''r1''), (''message'', JStr ''not found'')]"
  have a: "status_code (json_response 400 Map.empty (JObj ?bad)) \<noteq> 500"
          "json_body (json_response 400 Map.empty (JObj ?bad)) = Some (JObj ?bad)"
          "map_of ?bad ''status'' = Some (JStr ''error'')"
    by (simp_all add: json_response_def)
  have b: "status_code (json_response 404 Map.empty (JObj ?nf)) \<noteq> 500"
          "json_body (json_response 404 Map.empty (JObj ?nf)) = Some (JObj ?nf)"
          "map_of ?nf ''status'' = Some (JStr ''error'')"
    by (simp_all add: json_response_def)
  from execute_api_error[OF run_stub_sent requests_stub a,
         where d = "JObj [(''field'', JStr ''bad'')]"]
       execute_api_error[OF run_stub_sent requests_stub b,
         where code = "JStr ''404''" and request_id = "JStr ''r1''" and message = "JStr ''not found''"]
  show ?thesis by simp
qed

text \<open>
  Without the two fields the second half fails: a body with code \<open>"404"\<close> and no
  \<open>request_id\<close> raises \<open>KeyError\<close>.
\<close>

theorem execute_api_error_counterexample:
  "snd (execute (stub_lib (json_response 404 Map.empty
          (JObj [(''status'', JStr ''error''), (''error'', JStr ''404''),
                 (''message'', JStr ''not found'')])))
        (KazooRequest ''/accounts'' True ''get'' None) ''http://h'' None None
        (Some ''tok'') None (Map.empty :: string \<rightharpoonup> string)) =
   Inl (KeyError ''request_id'')"
  by (simp add: run_stub json_response_def)

text \<open>
  Claim C10. When the status code is not 500 and the body is valid JSON without a
  \<open>status\<close> key, the lookup \<^verbatim>\<open>response["status"]\<close> raises: \<open>KeyError\<close> on an object,
  \<open>TypeError\<close> on any other JSON value. The exception is none of the five error kinds
  of the specification, and the body is not returned.
\<close>

theorem execute_missing_status:
  assumes "HttpCall m rq \<in> set (fst (execute L self base_url method_arg data token files kwargs))"
    and "requests L m rq = Inr raw"
    and "status_code raw \<noteq> 500"
    and "json_body raw = Some body"
    and "\<not> has_key body ''status''"
  shows "snd (execute L self base_url method_arg data token files kwargs) =
           Inl (case body of JObj kvs \<Rightarrow> KeyError ''status'' | _ \<Rightarrow> TypeError) \<and>
         \<not> spec_error_kind (case body of JObj kvs \<Rightarrow> KeyError ''status'' | _ \<Rightarrow> TypeError)"
  using assms(3-5) by (cases body) (simp_all add: execute_response[OF assms(1,2)])

theorem execute_missing_status_witness:
  "snd (execute (stub_lib (json_response 200 Map.empty (JObj [(''data'', JObj [(''x'', JInt 1)])])))
        (KazooRequest ''/accounts'' True ''get'' None) ''http://h'' None None
        (Some ''tok'') None (Map.empty :: string \<rightharpoonup> string)) =
   Inl (KeyError ''status'') \<and>
   \<not> spec_error_kind (KeyError ''status'') \<and>
   snd (execute (stub_lib (json_response 200 Map.empty (JArr [JInt 1, JInt 2])))
        (KazooRequest ''/accounts'' True ''get'' None) ''http://h'' None None
        (Some ''tok'') None (Map.empty :: string \<rightharpoonup> string)) =
   Inl TypeError \<and>
   \<not> spec_error_kind TypeError"
proof -
  let ?b = "JObj [(''data'', JObj [(''x'', JInt 1)])]"
  let ?c = "JArr [JInt 1, JInt 2]"
  have a: "status_code (json_response 200 Map.empty ?b) \<noteq> 500"
          "json_body (json_response 200 Map.empty ?b) = Some ?b"
          "\<not> has_key ?b ''status''"
    by (simp_all add: json_response_def)
  have b: "status_code (json_response 200 Map.empty ?c) \<noteq> 500"
          "json_body (json_response 200 Map.empty ?c) = Some ?c"
          "\<not> has_key ?c ''status''"
    by (simp_all add: json_response_def)
  from execute_missing_status[OF run_stub_sent requests_stub a]
       execute_missing_status[OF run_stub_sent requests_stub b]
  show ?thesis by simp
qed

text \<open>
  What the handler of a 500 response does with a body that parses, for a response that has
  the header \<open>X-Request-Id\<close>: an object with a \<open>data\<close> field gives the generic API error
  with the header's value as request id and that field as message, and nothing else of
  the response is read; a falsy value takes the branch of the placeholder message.
\<close>

lemma execute_500_parsed_body:
  assumes "HttpCall m rq \<in> set (fst (execute L self base_url method_arg data token files kwargs))"
    and "requests L m rq = Inr raw"
    and "status_code raw = 500"
    and "resp_headers raw ''X-Request-Id'' = Some request_id"
    and "json_body raw = Some body"
  shows "(body = JObj kvs \<and> map_of kvs ''data'' = Some message \<longrightarrow>
            snd (execute L self base_url method_arg data token files kwargs) =
            Inl (KazooApiError ''Internal Server Error, Request ID was %s message was %s''
                   (JStr request_id) message)) \<and>
         (\<not> truthy body \<longrightarrow>
            snd (execute L self base_url method_arg data token files kwargs) =
            Inl (KazooApiError ''Internal Server Error, Request ID was %s message was %s''
                   (JStr request_id) (JStr ''There was no error message'')))"
  using assms(3-5) by (auto simp: execute_response[OF assms(1,2)] handle_500_error_def)

text \<open>
  The example of the specification: status 500, header \<open>X-Request-Id: abc123\<close> and the
  body \<open>{"data": "oops"}\<close>.
\<close>

lemma execute_500_example:
  "snd (execute (stub_lib (json_response 500 [''X-Request-Id'' \<mapsto> ''abc123'']
          (JObj [(''data'', JStr ''oops'')])))
        (KazooRequest ''/accounts'' True ''get'' None) ''http://h'' None None
        (Some ''tok'') None (Map.empty :: string \<rightharpoonup> string)) =
   Inl (KazooApiError ''Internal Server Error, Request ID was %s message was %s''
          (JStr ''abc123'') (JStr ''oops''))"
proof -
  let ?h = "[''X-Request-Id'' \<mapsto> ''abc123'']"
  let ?b = "JObj [(''data'', JStr ''oops'')]"
  have a: "status_code (json_response 500 ?h ?b) = 500"
          "resp_headers (json_response 500 ?h ?b) ''X-Request-Id'' = Some ''abc123''"
          "json_body (json_response 500 ?h ?b) = Some ?b"
    by (simp_all add: json_response_def)
  from execute_500_parsed_body[OF run_stub_sent requests_stub a,
         where kvs = "[(''data'', JStr ''oops'')]" and message = "JStr ''oops''"]
  show ?thesis by simp
qed

text \<open>
  The lookups of the header and of the \<open>data\<close> field have no guard: a response without
  the header, and an object without \<open>data\<close>, raise \<open>KeyError\<close>.
\<close>

lemma execute_500_key_errors:
  "snd (execute (stub_lib (json_response 500 Map.empty (JObj [(''data'', JStr ''oops'')])))
        (KazooRequest ''/accounts'' True ''get'' None) ''http://h'' None None
        (Some ''tok'') None (Map.empty :: string \<rightharpoonup> string)) =
   Inl (KeyError ''x-request-id'') \<and>
   snd (execute (stub_lib (json_response 500 [''X-Request-Id'' \<mapsto> ''abc123'']
          (JObj [(''message'', JStr ''boom'')])))
        (KazooRequest ''/accounts'' True ''get'' None) ''http://h'' None None
        (Some ''tok'') None (Map.empty :: string \<rightharpoonup> string)) =
   Inl (KeyError ''data'')"
  by (simp add: run_stub json_response_def handle_500_error_def)

text \<open>
  Claim C2. For every response with status code 500, the claim has execute raise the
  generic API error with the value of the header \<open>X-Request-Id\<close> as request id and, as
  message, the \<open>data\<close> field of the body if the body parses as JSON, or the placeholder
  \<open>There was no error message\<close> if it does not. The source has the branch for the
  placeholder, but a body that is not JSON never reaches it: \<^verbatim>\<open>raw_response.json()\<close>
  in the condition raises first. For the response with status 500, the header
  \<open>X-Request-Id: abc123\<close> and an HTML body, execute raises the decoding error and no
  generic API error.
\<close>

theorem execute_500_error_not_json:
  "execute
     (stub_lib \<lparr>status_code = 500, resp_headers = [''X-Request-Id'' \<mapsto> ''abc123''],
                 content = ''<html>Internal Server Error</html>'', json_body = None\<rparr>)
     (KazooRequest ''/accounts'' True ''get'' None) ''http://h'' None None
     (Some ''tok'') None (Map.empty :: string \<rightharpoonup> string) =
   ([LogDebug ''Making %s request to url %s'' [''get'', ''http://h/accounts''],
     HttpCall ''get''
       \<lparr>req_url = ''http://h/accounts'',
        req_headers = [(''Content-Type'', Some ''application/json''), (''X-Auth-Token'', Some ''tok'')],
        req_data = None, req_files = None\<rparr>],
    Inl JSONDecodeError)"
  by (simp add: run_stub handle_500_error_def)

end
